theory Spec2Isabelle
  imports Main
begin

text \<open>
  A model of the template synchronisation code: the mock database and client of the test
  utilities, the template service of the simplified solution, the unfixed service and
  background processor of problem.tsx, and the version increment of the application
  service; followed by what holds of them for optimistic locking, retry, backoff, cache
  coherence and the coordination with the background processor.
\<close>

section \<open>JavaScript values and objects\<close>

text \<open>
  The records of the template store are plain JavaScript objects. A top-level object
  (a stored template, an update payload, the where-conditions of a query) is a finite
  map from property names to values; a nested object (\<open>field_definitions\<close> and
  each definition in it) is the constructor \<open>Obj\<close> over an association list;
  an array is represented by the object of its index properties.
  \<open>DateISO t\<close> stands for the string \<open>new Date(t).toISOString()\<close> of the
  instant \<open>t\<close> (milliseconds).
\<close>

datatype jsval =
    Undefined
  | Null
  | Bool bool
  | Num int
  | Str string
  | DateISO nat
  | Obj "(string \<times> jsval) list"

type_synonym obj = "string \<rightharpoonup> jsval"

text \<open>Truthiness, as \<open>if (v)\<close>, \<open>v && e\<close> and \<open>v || e\<close> test it.\<close>

fun truthy :: "jsval \<Rightarrow> bool" where
  "truthy Undefined = False"
| "truthy Null = False"
| "truthy (Bool b) = b"
| "truthy (Num n) = (n \<noteq> 0)"
| "truthy (Str s) = (s \<noteq> [])"
| "truthy (DateISO t) = True"
| "truthy (Obj kvs) = True"

text \<open>Property access \<open>o.k\<close>: a missing property reads as \<open>undefined\<close>.\<close>

definition getprop :: "obj \<Rightarrow> string \<Rightarrow> jsval" where
  "getprop ob k = (case ob k of None \<Rightarrow> Undefined | Some v \<Rightarrow> v)"

text \<open>Optional chaining \<open>o?.k\<close> on an object that may be absent.\<close>

definition getprop_opt :: "obj option \<Rightarrow> string \<Rightarrow> jsval" where
  "getprop_opt ob k = (case ob of None \<Rightarrow> Undefined | Some m \<Rightarrow> getprop m k)"

section \<open>The mock database (test-utils: class MockDatabase)\<close>

text \<open>
  \<open>storage\<close> and \<open>locks\<close> are the two private \<open>Map\<close>s. Keys are
  JavaScript values, since the query interpreter passes whatever value the caller gave
  to \<open>eq('id', ...)\<close>. \<open>set\<close> and \<open>get\<close> copy the top level of the
  object (\<open>{ ...data }\<close>), which is what a map value is.
\<close>

record MockDatabase =
  storage :: "jsval \<rightharpoonup> obj"
  locks :: "jsval \<rightharpoonup> bool"

definition MockDatabase_new :: MockDatabase where
  "MockDatabase_new = \<lparr>storage = Map.empty, locks = Map.empty\<rparr>"

definition MockDatabase_set :: "MockDatabase \<Rightarrow> jsval \<Rightarrow> obj \<Rightarrow> MockDatabase" where
  "MockDatabase_set db i d = db\<lparr>storage := (storage db)(i \<mapsto> d)\<rparr>"

definition MockDatabase_get :: "MockDatabase \<Rightarrow> jsval \<Rightarrow> obj option" where
  "MockDatabase_get db i = storage db i"

text \<open>
  \<^verbatim>\<open>
  update(id, updates, whereConditions?) {
    const existing = this.get(id);
    if (!existing) return false;
    if (whereConditions?.version && existing.version !== whereConditions.version) return false;
    this.set(id, { ...existing, ...updates });
    return true;
  }
  \<close>
\<close>

definition MockDatabase_update ::
  "MockDatabase \<Rightarrow> jsval \<Rightarrow> obj \<Rightarrow> obj option \<Rightarrow> bool \<times> MockDatabase" where
  "MockDatabase_update db i updates whereConditions =
     (case MockDatabase_get db i of
        None \<Rightarrow> (False, db)
      | Some existing \<Rightarrow>
          if truthy (getprop_opt whereConditions ''version'')
             \<and> getprop existing ''version'' \<noteq> getprop_opt whereConditions ''version''
          then (False, db)
          else (True, MockDatabase_set db i (existing ++ updates)))"

definition MockDatabase_acquireLock :: "MockDatabase \<Rightarrow> jsval \<Rightarrow> bool \<times> MockDatabase" where
  "MockDatabase_acquireLock db i =
     (if locks db i = Some True then (False, db)
      else (True, db\<lparr>locks := (locks db)(i \<mapsto> True)\<rparr>))"

definition MockDatabase_releaseLock :: "MockDatabase \<Rightarrow> jsval \<Rightarrow> MockDatabase" where
  "MockDatabase_releaseLock db i = db\<lparr>locks := (locks db)(i := None)\<rparr>"

definition MockDatabase_clear :: "MockDatabase \<Rightarrow> MockDatabase" where
  "MockDatabase_clear db = db\<lparr>storage := Map.empty, locks := Map.empty\<rparr>"

section \<open>The query builder and the mock client (test-utils: createMockSupabase)\<close>

text \<open>
  A query is the list of operations chained on \<open>supabase.from(table)\<close>; awaiting
  it calls \<open>then\<close>, which interprets the list against the database and resolves
  with \<open>{ data, error }\<close>. A client other than the mock may also reject.
\<close>

datatype chain_op =
    OpSelect "string option"
  | OpUpdate obj
  | OpInsert obj
  | OpEq string jsval
  | OpSingle

datatype jserror = JsError (err_code: "string option") (err_message: string)

datatype response =
    Resolved (resp_data: "obj option") (resp_error: "jserror option")
  | Rejected jserror

type_synonym 's client = "'s \<Rightarrow> string \<Rightarrow> chain_op list \<Rightarrow> response \<times> 's"

fun is_select :: "chain_op \<Rightarrow> bool" where
  "is_select (OpSelect c) = True"
| "is_select other = False"

fun is_update :: "chain_op \<Rightarrow> bool" where
  "is_update (OpUpdate v) = True"
| "is_update other = False"

fun is_eq :: "chain_op \<Rightarrow> bool" where
  "is_eq (OpEq c v) = True"
| "is_eq other = False"

fun eq_column :: "chain_op \<Rightarrow> string" where
  "eq_column (OpEq c v) = c"
| "eq_column other = []"

fun eq_value :: "chain_op \<Rightarrow> jsval" where
  "eq_value (OpEq c v) = v"
| "eq_value other = Undefined"

fun update_payload :: "chain_op \<Rightarrow> obj" where
  "update_payload (OpUpdate v) = v"
| "update_payload other = Map.empty"

text \<open>
  \<open>eqOps.forEach(op => { if (op.column !== 'id') whereConditions[op.column] = op.value })\<close>
\<close>

fun where_conditions :: "chain_op list \<Rightarrow> obj \<Rightarrow> obj" where
  "where_conditions [] wc = wc"
| "where_conditions (op # ops) wc =
     where_conditions ops (if eq_column op \<noteq> ''id'' then wc(eq_column op \<mapsto> eq_value op) else wc)"

definition PGRST116 :: jserror where
  "PGRST116 = JsError (Some ''PGRST116'') ''No rows updated''"

definition createMockSupabase :: "MockDatabase client" where
  "createMockSupabase db table chainedOps =
     (let selectOp = find is_select chainedOps;
          updateOp = find is_update chainedOps;
          eqOps = filter is_eq chainedOps;
          idOp = find (\<lambda>op. eq_column op = ''id'') eqOps
      in case idOp of
           None \<Rightarrow> (Resolved None (Some (JsError None ''No ID specified'')), db)
         | Some idop \<Rightarrow>
             (let i = eq_value idop in
              case updateOp of
                Some uop \<Rightarrow>
                  (let whereConditions = where_conditions eqOps Map.empty;
                       res = MockDatabase_update db i (update_payload uop) (Some whereConditions)
                   in if fst res
                      then (Resolved (MockDatabase_get (snd res) i) None, snd res)
                      else (Resolved None (Some PGRST116), snd res))
              | None \<Rightarrow>
                  (case selectOp of
                     Some sop \<Rightarrow>
                       (case MockDatabase_get db i of
                          None \<Rightarrow> (Resolved None (Some (JsError None ''Not found'')), db)
                        | Some r \<Rightarrow> (Resolved (Some r) None, db))
                   | None \<Rightarrow> (Resolved None None, db))))"

section \<open>Services: the world they run in\<close>

text \<open>
  The services are written against the module-level \<open>supabase\<close> client, so the
  model takes the client as a parameter together with its state \<open>store\<close>.
  \<open>cache\<close> is the service's private \<open>Map\<close> (a cached value may be
  \<open>null\<close>), \<open>now\<close> the clock read by \<open>new Date()\<close>, and
  \<open>log\<close> records, in order, every query awaited and every delay waited.
  The latency of the client itself is not part of the model.
\<close>

datatype event = EvQuery string "chain_op list" | EvSleep nat

record 's world =
  store :: 's
  cache :: "string \<rightharpoonup> obj option"
  now :: nat
  log :: "event list"

record update_result =
  success :: bool
  data :: "obj option"

definition query :: "'s client \<Rightarrow> 's world \<Rightarrow> string \<Rightarrow> chain_op list \<Rightarrow> response \<times> 's world" where
  "query c w table ops =
     (let r = c (store w) table ops
      in (fst r, w\<lparr>store := snd r, log := log w @ [EvQuery table ops]\<rparr>))"

text \<open>\<open>await new Promise(resolve => setTimeout(resolve, ms))\<close>\<close>

definition sleep :: "'s world \<Rightarrow> nat \<Rightarrow> 's world" where
  "sleep w ms = w\<lparr>now := now w + ms, log := log w @ [EvSleep ms]\<rparr>"

definition TypeError :: jserror where
  "TypeError = JsError None ''TypeError''"

section \<open>Numbers in version strings\<close>

text \<open>
  \<open>String(Number(s) + 1)\<close> is computed exactly on two classes of strings: a
  non-empty string of decimal digits below \<open>2^53\<close> is that integer, so the result
  is the decimal numeral of its successor; a string that holds two dots, or an ASCII
  letter that occurs in no numeric literal (not a hexadecimal digit, not one of
  \<open>e x o b\<close> and not a letter of \<open>Infinity\<close>), is \<open>NaN\<close>, and
  \<open>NaN + 1\<close> prints as \<open>NaN\<close>. Every other argument (fractions, exponents,
  signs, blanks, other radices, integers beyond \<open>2^53\<close>, values that are not
  strings) is left to a parameter of the functions below, which may also throw.
\<close>

datatype jsnum = JInt nat | JNaN | JOther

definition is_digit :: "char \<Rightarrow> bool" where
  "is_digit c = (c \<in> set ''0123456789'')"

definition digit_val :: "char \<Rightarrow> nat" where
  "digit_val c = length (takeWhile (\<lambda>d. d \<noteq> c) ''0123456789'')"

definition nat_of_digits :: "string \<Rightarrow> nat" where
  "nat_of_digits s = foldl (\<lambda>n c. 10 * n + digit_val c) 0 s"

definition digit_char :: "nat \<Rightarrow> char" where
  "digit_char d = ''0123456789'' ! d"

function decimal :: "nat \<Rightarrow> string" where
  "decimal n = (if n < 10 then [digit_char n] else decimal (n div 10) @ [digit_char (n mod 10)])"
  by pat_completeness auto
termination
  by (relation "measure id") auto

declare decimal.simps [simp del]

definition non_numeric_letter :: "char \<Rightarrow> bool" where
  "non_numeric_letter c = (c \<in> set ''ghjklmpqrsuvwzGHJKLMNPQRSTUVWYZ'')"

definition Number_of_string :: "string \<Rightarrow> jsnum" where
  "Number_of_string s =
     (if s \<noteq> [] \<and> list_all is_digit s
      then (if nat_of_digits s < 2 ^ 53 then JInt (nat_of_digits s) else JOther)
      else if list_ex non_numeric_letter s \<or> 2 \<le> count_list s (CHR ''.'') then JNaN
      else JOther)"

text \<open>
  \<open>String(Number(v || '0') + 1)\<close>; \<open>conv\<close> stands for the same expression
  outside the two classes above.
\<close>

definition next_version :: "(jsval \<Rightarrow> jserror + string) \<Rightarrow> jsval \<Rightarrow> jserror + string" where
  "next_version conv v =
     (let x = (if truthy v then v else Str ''0'')
      in case x of
           Str s \<Rightarrow>
             (case Number_of_string s of
                JInt n \<Rightarrow> Inr (decimal (n + 1))
              | JNaN \<Rightarrow> Inr ''NaN''
              | JOther \<Rightarrow> conv x)
         | other \<Rightarrow> conv x)"

section \<open>The simplified solution (SOLUTION_SIMPLIFIED.ts: class TemplateService)\<close>

definition MAX_RETRIES :: nat where
  "MAX_RETRIES = 2"

text \<open>How the body of \<open>try\<close> completes when it does not throw.\<close>

datatype 'a completion = Return 'a | Continue

definition failure :: update_result where
  "failure = \<lparr>success = False, data = None\<rparr>"

text \<open>
  The body of \<open>try\<close> in one iteration of the loop, \<open>attempts\<close> already
  incremented. \<open>Inl e\<close> is \<open>throw e\<close>: a rejected query, a fetch error, reading
  \<open>version\<close> of a missing record, a failing conversion, or an update error that is
  not retried here.
\<close>

definition try_block ::
  "(jsval \<Rightarrow> jserror + string) \<Rightarrow> 's client \<Rightarrow> 's world \<Rightarrow> string \<Rightarrow> obj \<Rightarrow> nat
     \<Rightarrow> (jserror + update_result completion) \<times> 's world" where
  "try_block conv c w templateId updates attempts =
     (case query c w ''template_library''
             [OpSelect (Some ''*''), OpEq ''id'' (Str templateId), OpSingle] of
        (Rejected e, w1) \<Rightarrow> (Inl e, w1)
      | (Resolved current fetchError, w1) \<Rightarrow>
          (case fetchError of
             Some e \<Rightarrow> (Inl e, w1)
           | None \<Rightarrow>
               (case current of
                  None \<Rightarrow> (Inl TypeError, w1)
                | Some cur \<Rightarrow>
                    (case next_version conv (getprop cur ''version'') of
                       Inl e \<Rightarrow> (Inl e, w1)
                     | Inr newVersion \<Rightarrow>
                         (case query c w1 ''template_library''
                                 [OpUpdate (updates(''version'' \<mapsto> Str newVersion,
                                                    ''updated_at'' \<mapsto> DateISO (now w1))),
                                  OpEq ''id'' (Str templateId),
                                  OpEq ''version'' (getprop cur ''version''),
                                  OpSelect None, OpSingle] of
                            (Rejected e, w2) \<Rightarrow> (Inl e, w2)
                          | (Resolved updated updateError, w2) \<Rightarrow>
                              (case updateError of
                                 Some e \<Rightarrow>
                                   if err_code e = Some ''PGRST116'' \<and> attempts < MAX_RETRIES
                                   then (Inr Continue, sleep w2 (100 * attempts))
                                   else (Inl e, w2)
                               | None \<Rightarrow>
                                   (Inr (Return \<lparr>success = True, data = updated\<rparr>),
                                    w2\<lparr>cache := (cache w2)(templateId := None)\<rparr>)))))))"

text \<open>
  \<^verbatim>\<open>
  while (attempts < this.MAX_RETRIES) {
    attempts++;
    try { ... } catch (error) {
      if (attempts >= this.MAX_RETRIES) return { success: false, data: null };
    }
  }
  return { success: false, data: null };
  \<close>
  The result is \<open>Inr\<close> of the object returned; \<open>Inl\<close> would be a rejected
  promise.
\<close>

function updateTemplate_loop ::
  "(jsval \<Rightarrow> jserror + string) \<Rightarrow> 's client \<Rightarrow> 's world \<Rightarrow> string \<Rightarrow> obj \<Rightarrow> nat
     \<Rightarrow> (jserror + update_result) \<times> 's world" where
  "updateTemplate_loop conv c w templateId updates attempts =
     (if attempts < MAX_RETRIES
      then (case try_block conv c w templateId updates (attempts + 1) of
              (Inr (Return r), w') \<Rightarrow> (Inr r, w')
            | (Inr Continue, w') \<Rightarrow> updateTemplate_loop conv c w' templateId updates (attempts + 1)
            | (Inl error, w') \<Rightarrow>
                if attempts + 1 \<ge> MAX_RETRIES then (Inr failure, w')
                else updateTemplate_loop conv c w' templateId updates (attempts + 1))
      else (Inr failure, w))"
  by pat_completeness auto
termination
  by (relation "measure (\<lambda>(conv, c, w, templateId, updates, attempts). MAX_RETRIES - attempts)") auto

declare updateTemplate_loop.simps [simp del]

definition updateTemplate ::
  "(jsval \<Rightarrow> jserror + string) \<Rightarrow> 's client \<Rightarrow> 's world \<Rightarrow> string \<Rightarrow> obj
     \<Rightarrow> (jserror + update_result) \<times> 's world" where
  "updateTemplate conv c w templateId updates = updateTemplate_loop conv c w templateId updates 0"

text \<open>
  \<open>getTemplate\<close>: a cached value is returned as it is; otherwise the record is
  fetched, and cached unless the fetch reported an error (then the result is
  \<open>null\<close>).
\<close>

definition getTemplate ::
  "'s client \<Rightarrow> 's world \<Rightarrow> string \<Rightarrow> (jserror + obj option) \<times> 's world" where
  "getTemplate c w templateId =
     (case cache w templateId of
        Some v \<Rightarrow> (Inr v, w)
      | None \<Rightarrow>
          (case query c w ''template_library''
                  [OpSelect (Some ''*''), OpEq ''id'' (Str templateId), OpSingle] of
             (Rejected e, w1) \<Rightarrow> (Inl e, w1)
           | (Resolved d err, w1) \<Rightarrow>
               (case err of
                  Some e \<Rightarrow> (Inr None, w1)
                | None \<Rightarrow> (Inr d, w1\<lparr>cache := (cache w1)(templateId \<mapsto> d)\<rparr>))))"

definition clearCache :: "'s world \<Rightarrow> string option \<Rightarrow> 's world" where
  "clearCache w templateId =
     (case templateId of
        Some i \<Rightarrow> (if i \<noteq> [] then w\<lparr>cache := (cache w)(i := None)\<rparr> else w\<lparr>cache := Map.empty\<rparr>)
      | None \<Rightarrow> w\<lparr>cache := Map.empty\<rparr>)"

text \<open>
  The part of \<open>getTemplate\<close> that follows a cache miss (from
  \<open>// Fetch from database\<close> on): what a call that has found no entry does once
  its query is answered, whatever the cache holds by then.
\<close>

definition getTemplate_fetch ::
  "'s client \<Rightarrow> 's world \<Rightarrow> string \<Rightarrow> (jserror + obj option) \<times> 's world" where
  "getTemplate_fetch c w templateId =
     (case query c w ''template_library''
             [OpSelect (Some ''*''), OpEq ''id'' (Str templateId), OpSingle] of
        (Rejected e, w1) \<Rightarrow> (Inl e, w1)
      | (Resolved d err, w1) \<Rightarrow>
          (case err of
             Some e \<Rightarrow> (Inr None, w1)
           | None \<Rightarrow> (Inr d, w1\<lparr>cache := (cache w1)(templateId \<mapsto> d)\<rparr>)))"

section \<open>The unfixed service and the background processor (problem.tsx)\<close>

text \<open>
  \<open>TemplateService.updateTemplate\<close> of problem.tsx: one update query with no
  version condition; an error is logged and thrown again; on success the returned record
  replaces the cache entry.
\<close>

definition problem_updateTemplate ::
  "'s client \<Rightarrow> 's world \<Rightarrow> string \<Rightarrow> obj \<Rightarrow> (jserror + update_result) \<times> 's world" where
  "problem_updateTemplate c w templateId updates =
     (case query c w ''template_library''
             [OpUpdate (updates(''updated_at'' \<mapsto> DateISO (now w))),
              OpEq ''id'' (Str templateId), OpSelect None, OpSingle] of
        (Rejected e, w1) \<Rightarrow> (Inl e, w1)
      | (Resolved d err, w1) \<Rightarrow>
          (case err of
             Some e \<Rightarrow> (Inl e, w1)
           | None \<Rightarrow>
               (Inr \<lparr>success = True, data = d\<rparr>, w1\<lparr>cache := (cache w1)(templateId \<mapsto> d)\<rparr>)))"

definition problem_getTemplate ::
  "'s client \<Rightarrow> 's world \<Rightarrow> string \<Rightarrow> (jserror + obj option) \<times> 's world" where
  "problem_getTemplate c w templateId =
     (case cache w templateId of
        Some v \<Rightarrow> (Inr v, w)
      | None \<Rightarrow>
          (case query c w ''template_library''
                  [OpSelect (Some ''*''), OpEq ''id'' (Str templateId), OpSingle] of
             (Rejected e, w1) \<Rightarrow> (Inl e, w1)
           | (Resolved d err, w1) \<Rightarrow>
               (case err of
                  Some e \<Rightarrow> (Inl e, w1)
                | None \<Rightarrow> (Inr d, w1\<lparr>cache := (cache w1)(templateId \<mapsto> d)\<rparr>))))"

text \<open>
  \<open>performComplexProcessing\<close> waits 100 ms, then marks every entry of
  \<open>field_definitions\<close>: \<open>entry.processed = true; entry.processedAt = now\<close>.
  The module is strict code, so the assignment throws a \<open>TypeError\<close> on an entry
  that is not an object. The source makes the assignment through the reference it
  shares with the copy it read; the model returns the marked value, which is what the
  update that follows writes.
\<close>

fun obj_set :: "string \<Rightarrow> jsval \<Rightarrow> (string \<times> jsval) list \<Rightarrow> (string \<times> jsval) list" where
  "obj_set k v [] = [(k, v)]"
| "obj_set k v (kv # kvs) = (if fst kv = k then (k, v) # kvs else kv # obj_set k v kvs)"

fun mark_processed :: "nat \<Rightarrow> jsval \<Rightarrow> jserror + jsval" where
  "mark_processed t (Obj fs) =
     Inr (Obj (obj_set ''processedAt'' (DateISO t) (obj_set ''processed'' (Bool True) fs)))"
| "mark_processed t other = Inl TypeError"

fun mark_entries :: "nat \<Rightarrow> (string \<times> jsval) list \<Rightarrow> jserror + (string \<times> jsval) list" where
  "mark_entries t [] = Inr []"
| "mark_entries t (kv # kvs) =
     (case mark_processed t (snd kv) of
        Inl e \<Rightarrow> Inl e
      | Inr v \<Rightarrow> (case mark_entries t kvs of Inl e \<Rightarrow> Inl e | Inr r \<Rightarrow> Inr ((fst kv, v) # r)))"

text \<open>
  \<open>if (processed.field_definitions) Object.keys(...).forEach(...)\<close>: a falsy value
  is skipped, a number or boolean has no keys, the keys of a string are its indices
  (whose values are characters, so the first assignment throws).
\<close>

fun mark_field_definitions :: "nat \<Rightarrow> jsval \<Rightarrow> jserror + jsval" where
  "mark_field_definitions t (Obj kvs) =
     (case mark_entries t kvs of Inl e \<Rightarrow> Inl e | Inr r \<Rightarrow> Inr (Obj r))"
| "mark_field_definitions t (Str s) = (if s = [] then Inr (Str s) else Inl TypeError)"
| "mark_field_definitions t (DateISO d) = Inl TypeError"
| "mark_field_definitions t other = Inr other"

definition performComplexProcessing :: "'s world \<Rightarrow> obj \<Rightarrow> (jserror + obj) \<times> 's world" where
  "performComplexProcessing w template =
     (let w1 = sleep w 100
      in case template ''field_definitions'' of
           None \<Rightarrow> (Inr template, w1)
         | Some fd \<Rightarrow>
             (case mark_field_definitions (now w1) fd of
                Inl e \<Rightarrow> (Inl e, w1)
              | Inr fd' \<Rightarrow> (Inr (template(''field_definitions'' \<mapsto> fd')), w1)))"

text \<open>
  \<open>TemplateFieldProcessor.processTemplateFields\<close>: read the record, return if there
  is none, process, and write \<open>field_definitions\<close> and \<open>processed_at\<close> with no
  condition but the id. The result of the write is not looked at.
\<close>

definition processTemplateFields ::
  "'s client \<Rightarrow> 's world \<Rightarrow> string \<Rightarrow> (jserror + unit) \<times> 's world" where
  "processTemplateFields c w templateId =
     (case query c w ''template_library''
             [OpSelect (Some ''sections, field_definitions''), OpEq ''id'' (Str templateId),
              OpSingle] of
        (Rejected e, w1) \<Rightarrow> (Inl e, w1)
      | (Resolved template err, w1) \<Rightarrow>
          (case template of
             None \<Rightarrow> (Inr (), w1)
           | Some t \<Rightarrow>
               (case performComplexProcessing w1 t of
                  (Inl e, w2) \<Rightarrow> (Inl e, w2)
                | (Inr processed, w2) \<Rightarrow>
                    (case query c w2 ''template_library''
                            [OpUpdate [''field_definitions'' \<mapsto> getprop processed ''field_definitions'',
                                       ''processed_at'' \<mapsto> DateISO (now w2)],
                             OpEq ''id'' (Str templateId)] of
                       (Rejected e, w3) \<Rightarrow> (Inl e, w3)
                     | (Resolved d e, w3) \<Rightarrow> (Inr (), w3)))))"

section \<open>Version increment of the application service (services/TemplateService.ts)\<close>

text \<open>
  \<^verbatim>\<open>
  private incrementVersion(version: string): string {
    const parts = version.split('.');
    const patch = parseInt(parts[2] || '0') + 1;
    return `${parts[0]}.${parts[1]}.${patch}`;
  }
  \<close>
  \<open>parseInt\<close> is computed on a string that starts with a decimal digit (the longest
  prefix of digits, below \<open>2^53\<close>, unless it opens a hexadecimal literal) and on a
  string that starts with an ASCII letter (\<open>NaN\<close>); the parameter \<open>conv\<close>
  stands for \<open>String(parseInt(s) + 1)\<close> on every other string.
\<close>

fun split_on :: "char \<Rightarrow> string \<Rightarrow> string list" where
  "split_on d [] = [[]]"
| "split_on d (c # cs) =
     (if c = d then [] # split_on d cs
      else (case split_on d cs of [] \<Rightarrow> [[c]] | p # ps \<Rightarrow> (c # p) # ps))"

definition part :: "string list \<Rightarrow> nat \<Rightarrow> string option" where
  "part parts i = (if i < length parts then Some (parts ! i) else None)"

definition is_letter :: "char \<Rightarrow> bool" where
  "is_letter c = (c \<in> set ''abcdefghijklmnopqrstuvwxyzABCDEFGHIJKLMNOPQRSTUVWXYZ'')"

definition parseInt_of_string :: "string \<Rightarrow> jsnum" where
  "parseInt_of_string s =
     (case s of
        [] \<Rightarrow> JNaN
      | c # cs \<Rightarrow>
          if is_digit c
          then (let ds = takeWhile is_digit s; r = dropWhile is_digit s
                in if ds = ''0'' \<and> r \<noteq> [] \<and> (hd r = CHR ''x'' \<or> hd r = CHR ''X'') then JOther
                   else if nat_of_digits ds < 2 ^ 53 then JInt (nat_of_digits ds)
                   else JOther)
          else if is_letter c then JNaN
          else JOther)"

definition incrementVersion :: "(string \<Rightarrow> string) \<Rightarrow> string \<Rightarrow> string" where
  "incrementVersion conv version =
     (let parts = split_on (CHR ''.'') version;
          p2 = (case part parts 2 of None \<Rightarrow> ''0'' | Some s \<Rightarrow> if s = [] then ''0'' else s);
          patch = (case parseInt_of_string p2 of
                     JInt n \<Rightarrow> decimal (n + 1)
                   | JNaN \<Rightarrow> ''NaN''
                   | JOther \<Rightarrow> conv p2)
      in (case part parts 0 of None \<Rightarrow> ''undefined'' | Some s \<Rightarrow> s) @ ''.''
         @ (case part parts 1 of None \<Rightarrow> ''undefined'' | Some s \<Rightarrow> s) @ ''.'' @ patch)"

section \<open>Clients used to exercise the services\<close>

text \<open>
  Other writers commit between the store accesses of a caller: \<open>racing c\<close> runs,
  before each query of the caller, the next pending change of the other writers on the
  store, and then the query on client \<open>c\<close>.
\<close>

definition racing :: "'s client \<Rightarrow> ('s \<times> ('s \<Rightarrow> 's) list) client" where
  "racing c st table ops =
     (case snd st of
        [] \<Rightarrow> (let r = c (fst st) table ops in (fst r, (snd r, [])))
      | f # fs \<Rightarrow> (let r = c (f (fst st)) table ops in (fst r, (snd r, fs))))"

text \<open>
  A store whose conditional write always reports a version conflict: every read finds a
  record at version \<open>1\<close>, every update resolves with the error \<open>PGRST116\<close>.
\<close>

definition always_conflict :: "unit client" where
  "always_conflict s table ops =
     (if list_ex is_update ops then (Resolved None (Some PGRST116), s)
      else (Resolved (Some [''version'' \<mapsto> Str ''1'']) None, s))"

text \<open>A store that fails every query with an error that is not a conflict.\<close>

definition always_failing :: "unit client" where
  "always_failing s table ops = (Resolved None (Some (JsError None ''connection lost'')), s)"

text \<open>The conversion parameter used in the examples: outside the two classes, throw.\<close>

definition no_conv :: "jsval \<Rightarrow> jserror + string" where
  "no_conv v = Inl (JsError None ''not computed'')"

definition initial_world :: "'s \<Rightarrow> 's world" where
  "initial_world s = \<lparr>store = s, cache = Map.empty, now = 0, log = []\<rparr>"

section \<open>Reading the log\<close>

text \<open>
  A conditional write is a query that holds an \<open>update\<close>; a read is a query that
  holds none; \<open>delays\<close> lists the delays waited, in order.
\<close>

fun is_write :: "event \<Rightarrow> bool" where
  "is_write (EvQuery t ops) = list_ex is_update ops"
| "is_write (EvSleep d) = False"

fun is_read :: "event \<Rightarrow> bool" where
  "is_read (EvQuery t ops) = (\<not> list_ex is_update ops)"
| "is_read (EvSleep d) = False"

definition writes :: "event list \<Rightarrow> nat" where
  "writes evs = length (filter is_write evs)"

definition reads :: "event list \<Rightarrow> nat" where
  "reads evs = length (filter is_read evs)"

fun delays :: "event list \<Rightarrow> nat list" where
  "delays [] = []"
| "delays (EvSleep d # evs) = d # delays evs"
| "delays (EvQuery t ops # evs) = delays evs"

text \<open>
  The delay the specification gives for the wait before retry attempt \<open>k\<close>:
  \<open>baseBackoffMs * backoffMultiplier ^ (attempt - 1)\<close> with the defaults 100 and 2,
  \<open>attempt = k - 1\<close> being the attempt that has just failed.
\<close>

definition spec_backoff_before :: "nat \<Rightarrow> nat" where
  "spec_backoff_before k = 100 * 2 ^ ((k - 1) - 1)"

section \<open>Test records (test-utils: createTestTemplate)\<close>

text \<open>
  \<open>createTestTemplate(overrides)\<close> at the instant \<open>t\<close>: the fixed record of the
  test utilities, then the overrides.
\<close>

definition createTestTemplate :: "nat \<Rightarrow> obj \<Rightarrow> obj" where
  "createTestTemplate t overrides =
     [''id'' \<mapsto> Str ''test-template-123'',
      ''name'' \<mapsto> Str ''Test Template'',
      ''sections'' \<mapsto>
        Obj [(''0'', Obj [(''id'', Str ''section-1''), (''title'', Str ''General Information''),
                          (''fields'', Obj [(''0'', Str ''field-1''), (''1'', Str ''field-2'')]),
                          (''order'', Num 1)])],
      ''field_definitions'' \<mapsto>
        Obj [(''field-1'', Obj [(''id'', Str ''field-1''), (''type'', Str ''text''),
                                (''label'', Str ''Equipment Name''), (''required'', Bool True)]),
             (''field-2'', Obj [(''id'', Str ''field-2''), (''type'', Str ''number''),
                                (''label'', Str ''Serial Number''), (''required'', Bool False)])],
      ''version'' \<mapsto> Str ''1.0.0'',
      ''updated_at'' \<mapsto> DateISO t,
      ''organization_id'' \<mapsto> Str ''org-123'']
     ++ overrides"

text \<open>A database that holds one record under its own id.\<close>

definition database_with :: "obj \<Rightarrow> MockDatabase" where
  "database_with r = MockDatabase_set MockDatabase_new (getprop r ''id'') r"

text \<open>
  The databases the two test suites start from (\<open>beforeEach\<close> of template.test.ts
  and of template-simplified.test.ts).
\<close>

definition test_db :: MockDatabase where
  "test_db = database_with (createTestTemplate 0 Map.empty)"

definition simplified_test_db :: MockDatabase where
  "simplified_test_db =
     database_with (createTestTemplate 0
       [''id'' \<mapsto> Str ''template-1'', ''name'' \<mapsto> Str ''Original Name'',
        ''description'' \<mapsto> Str ''Original Description'', ''version'' \<mapsto> Str ''1''])"

text \<open>Observations used to state results: a field of the stored record, and success.\<close>

definition stored_field :: "MockDatabase world \<Rightarrow> string \<Rightarrow> string \<Rightarrow> jsval" where
  "stored_field w templateId k = getprop_opt (storage (store w) (Str templateId)) k"

definition succeeded :: "(jserror + update_result) \<Rightarrow> bool" where
  "succeeded x = (case x of Inl e \<Rightarrow> False | Inr r \<Rightarrow> success r)"

text \<open>
  The cache agrees with the database: every cached value is the record the database
  holds for that id (or \<open>null\<close> where it holds none).
\<close>

definition coherent :: "MockDatabase world \<Rightarrow> bool" where
  "coherent w = (\<forall>i r. cache w i = Some r \<longrightarrow> r = storage (store w) (Str i))"

section \<open>Calls made on a service instance over time\<close>

text \<open>
  What can happen to one instance of the simplified solution's \<open>TemplateService\<close>
  and to the mock database it talks to, one step at a time, each step being one turn of
  the event loop (a query of the mock client is answered, and the caller's continuation
  runs, inside one timer callback):
  \<^item> \<open>GetTemplate i\<close>: a call \<open>getTemplate(i)\<close>, from the cache lookup to
    its return;
  \<^item> \<open>PendingGet i\<close>: a call \<open>getTemplate(i)\<close> that found no entry at some
    earlier moment gets its answer now, caches it and returns;
  \<^item> \<open>UpdateTemplate i u\<close>: a call \<open>updateTemplate(i, u)\<close>;
  \<^item> \<open>ClearCache i\<close>: a call \<open>clearCache(i)\<close>;
  \<^item> \<open>OtherWriter f\<close>: anything else changes the database by \<open>f\<close>
    (another service instance, the background processor, a test writing to the mock
    database directly).
\<close>

datatype call =
    GetTemplate string
  | PendingGet string
  | UpdateTemplate string obj
  | ClearCache "string option"
  | OtherWriter "MockDatabase \<Rightarrow> MockDatabase"

text \<open>
  What a \<open>getTemplate\<close> returned: the id asked for, the result, and the states
  the database has been in from the start of the run up to the moment of the return.
\<close>

record observation =
  obs_id :: string
  obs_result :: "jserror + obj option"
  obs_states :: "MockDatabase list"

text \<open>
  \<open>run_calls conv calls w states\<close> runs the steps in order from the world
  \<open>w\<close> and lists what the \<open>getTemplate\<close> calls returned; \<open>states\<close>
  are the database states so far, the current one last.
\<close>

fun run_calls ::
  "(jsval \<Rightarrow> jserror + string) \<Rightarrow> call list \<Rightarrow> MockDatabase world \<Rightarrow> MockDatabase list
     \<Rightarrow> observation list" where
  "run_calls conv [] w states = []"
| "run_calls conv (GetTemplate i # calls) w states =
     (let g = getTemplate createMockSupabase w i
      in \<lparr>obs_id = i, obs_result = fst g, obs_states = states\<rparr>
           # run_calls conv calls (snd g) states)"
| "run_calls conv (PendingGet i # calls) w states =
     (let g = getTemplate_fetch createMockSupabase w i
      in \<lparr>obs_id = i, obs_result = fst g, obs_states = states\<rparr>
           # run_calls conv calls (snd g) states)"
| "run_calls conv (UpdateTemplate i u # calls) w states =
     (let w1 = snd (updateTemplate conv createMockSupabase w i u)
      in run_calls conv calls w1 (states @ [store w1]))"
| "run_calls conv (ClearCache i # calls) w states = run_calls conv calls (clearCache w i) states"
| "run_calls conv (OtherWriter f # calls) w states =
     (let w1 = w\<lparr>store := f (store w)\<rparr>
      in run_calls conv calls w1 (states @ [store w1]))"



section \<open>The conditional write of the mock database\<close>

text \<open>
  Claim C10. \<open>MockDatabase.update\<close> is atomic with respect to failure: when it
  returns \<open>false\<close> the database is unchanged, and it does so because the id has no
  record or because a (truthy) version condition differs from the stored version; when
  it returns \<open>true\<close> the record is the old one overridden by the updates, so that
  every key of the updates is applied and every other field, every other record and the
  locks are as they were.
\<close>

theorem MockDatabase_update_atomic:
  assumes "MockDatabase_update db i updates wc = (ok, db')"
  shows "(\<not> ok \<longrightarrow>
            db' = db
            \<and> (storage db i = None
                \<or> (truthy (getprop_opt wc ''version'')
                    \<and> (\<exists>existing. storage db i = Some existing
                          \<and> getprop existing ''version'' \<noteq> getprop_opt wc ''version''))))
       \<and> (ok \<longrightarrow>
            (\<exists>existing. storage db i = Some existing
               \<and> storage db' i = Some (existing ++ updates)
               \<and> (\<forall>k v. updates k = Some v \<longrightarrow> (existing ++ updates) k = Some v)
               \<and> (\<forall>k. updates k = None \<longrightarrow> (existing ++ updates) k = existing k))
            \<and> (\<forall>j. j \<noteq> i \<longrightarrow> storage db' j = storage db j)
            \<and> locks db' = locks db)"
  using assms
  by (auto simp: MockDatabase_update_def MockDatabase_get_def MockDatabase_set_def map_add_def
           split: option.splits if_splits)

theorem MockDatabase_update_atomic_witness:
  "fst (MockDatabase_update (database_with (createTestTemplate 0 Map.empty)) (Str ''test-template-123'')
          [''name'' \<mapsto> Str ''X''] (Some [''version'' \<mapsto> Str ''1.0.0'']))
   \<and> (\<exists>existing. storage (database_with (createTestTemplate 0 Map.empty)) (Str ''test-template-123'')
                     = Some existing
        \<and> storage (snd (MockDatabase_update (database_with (createTestTemplate 0 Map.empty))
                           (Str ''test-template-123'') [''name'' \<mapsto> Str ''X'']
                           (Some [''version'' \<mapsto> Str ''1.0.0''])))
            (Str ''test-template-123'') = Some (existing ++ [''name'' \<mapsto> Str ''X'']))
   \<and> \<not> fst (MockDatabase_update (database_with (createTestTemplate 0 Map.empty)) (Str ''test-template-123'')
          [''name'' \<mapsto> Str ''X''] (Some [''version'' \<mapsto> Str ''0.9.0'']))
   \<and> snd (MockDatabase_update (database_with (createTestTemplate 0 Map.empty)) (Str ''test-template-123'')
          [''name'' \<mapsto> Str ''X''] (Some [''version'' \<mapsto> Str ''0.9.0'']))
      = database_with (createTestTemplate 0 Map.empty)"
proof -
  let ?db = "database_with (createTestTemplate 0 Map.empty)"
  let ?i = "Str ''test-template-123''"
  let ?u = "[''name'' \<mapsto> Str ''X'']"
  let ?good = "MockDatabase_update ?db ?i ?u (Some [''version'' \<mapsto> Str ''1.0.0''])"
  let ?bad = "MockDatabase_update ?db ?i ?u (Some [''version'' \<mapsto> Str ''0.9.0''])"
  have g: "fst ?good" by (simp add: MockDatabase_update_def MockDatabase_get_def MockDatabase_set_def
          database_with_def createTestTemplate_def getprop_def getprop_opt_def MockDatabase_new_def)
  have b: "\<not> fst ?bad" by (simp add: MockDatabase_update_def MockDatabase_get_def MockDatabase_set_def
          database_with_def createTestTemplate_def getprop_def getprop_opt_def MockDatabase_new_def)
  from MockDatabase_update_atomic[OF surjective_pairing, of ?db ?i ?u "Some [''version'' \<mapsto> Str ''1.0.0'']"] g
  have 1: "\<exists>existing. storage ?db ?i = Some existing \<and> storage (snd ?good) ?i = Some (existing ++ ?u)"
    by blast
  from MockDatabase_update_atomic[OF surjective_pairing, of ?db ?i ?u "Some [''version'' \<mapsto> Str ''0.9.0'']"] b
  have 2: "snd ?bad = ?db" by blast
  from g b 1 2 show ?thesis by blast
qed

text \<open>
  A version condition that is truthy is compared with the stored version: the write goes
  through exactly when the record exists and holds that version.
\<close>

lemma conditional_write_compares_truthy_version:
  assumes "truthy v"
  shows "fst (MockDatabase_update db i updates (Some [''version'' \<mapsto> v]))
           \<longleftrightarrow> (\<exists>existing. storage db i = Some existing \<and> getprop existing ''version'' = v)"
  using assms
  by (auto simp: MockDatabase_update_def MockDatabase_get_def getprop_opt_def getprop_def
           split: option.splits)

text \<open>The mock client on the queries the services build.\<close>

lemma mock_select:
  "createMockSupabase db t [OpSelect cols, OpEq ''id'' i, OpSingle] =
     (case storage db i of
        None \<Rightarrow> (Resolved None (Some (JsError None ''Not found'')), db)
      | Some r \<Rightarrow> (Resolved (Some r) None, db))"
  by (simp add: createMockSupabase_def MockDatabase_get_def split: option.splits)

lemma mock_update_versioned:
  "createMockSupabase db t [OpUpdate p, OpEq ''id'' i, OpEq ''version'' v, OpSelect None, OpSingle] =
     (case storage db i of
        None \<Rightarrow> (Resolved None (Some PGRST116), db)
      | Some existing \<Rightarrow>
          if truthy v \<and> getprop existing ''version'' \<noteq> v
          then (Resolved None (Some PGRST116), db)
          else (Resolved (Some (existing ++ p)) None,
                db\<lparr>storage := (storage db)(i \<mapsto> existing ++ p)\<rparr>))"
  by (simp add: createMockSupabase_def MockDatabase_get_def MockDatabase_update_def
        MockDatabase_set_def getprop_opt_def getprop_def split: option.splits)

lemma mock_update_unconditional:
  "createMockSupabase db t [OpUpdate p, OpEq ''id'' i, OpSelect None, OpSingle] =
     (case storage db i of
        None \<Rightarrow> (Resolved None (Some PGRST116), db)
      | Some existing \<Rightarrow>
          (Resolved (Some (existing ++ p)) None,
           db\<lparr>storage := (storage db)(i \<mapsto> existing ++ p)\<rparr>))"
  by (simp add: createMockSupabase_def MockDatabase_get_def MockDatabase_update_def
        MockDatabase_set_def getprop_opt_def getprop_def split: option.splits)

lemma mock_update_processor:
  "createMockSupabase db t [OpUpdate p, OpEq ''id'' i] =
     (case storage db i of
        None \<Rightarrow> (Resolved None (Some PGRST116), db)
      | Some existing \<Rightarrow>
          (Resolved (Some (existing ++ p)) None,
           db\<lparr>storage := (storage db)(i \<mapsto> existing ++ p)\<rparr>))"
  by (simp add: createMockSupabase_def MockDatabase_get_def MockDatabase_update_def
        MockDatabase_set_def getprop_opt_def getprop_def split: option.splits)

lemmas fixture_defs = test_db_def simplified_test_db_def database_with_def createTestTemplate_def
  MockDatabase_set_def MockDatabase_new_def initial_world_def getprop_def getprop_opt_def
  stored_field_def succeeded_def

lemmas number_defs = next_version_def Number_of_string_def is_digit_def nat_of_digits_def
  digit_val_def decimal.simps digit_char_def non_numeric_letter_def

section \<open>The retry loop of the simplified solution\<close>

text \<open>
  With \<open>MAX_RETRIES = 2\<close> the loop runs the body at most twice: with
  \<open>attempts = 1\<close>, and, unless that attempt returned, with \<open>attempts = 2\<close>.
\<close>

lemma loop_at_max:
  "updateTemplate_loop conv c w tid u (Suc (Suc 0)) = (Inr failure, w)"
  by (subst updateTemplate_loop.simps) (simp add: MAX_RETRIES_def)

lemma loop_at_one:
  "updateTemplate_loop conv c w tid u (Suc 0) =
     (case try_block conv c w tid u (Suc (Suc 0)) of
        (Inr (Return r), w2) \<Rightarrow> (Inr r, w2)
      | (other2, w2) \<Rightarrow> (Inr failure, w2))"
  by (subst updateTemplate_loop.simps)
     (auto simp: MAX_RETRIES_def loop_at_max split: prod.splits sum.splits completion.splits)

lemma updateTemplate_unroll:
  "updateTemplate conv c w tid u =
     (case try_block conv c w tid u (Suc 0) of
        (Inr (Return r), w1) \<Rightarrow> (Inr r, w1)
      | (other, w1) \<Rightarrow>
          (case try_block conv c w1 tid u (Suc (Suc 0)) of
             (Inr (Return r), w2) \<Rightarrow> (Inr r, w2)
           | (other2, w2) \<Rightarrow> (Inr failure, w2)))"
  unfolding updateTemplate_def
  by (subst updateTemplate_loop.simps)
     (auto simp: MAX_RETRIES_def loop_at_one split: prod.splits sum.splits completion.splits)


lemma reads_append: "reads (xs @ ys) = reads xs + reads ys"
  by (simp add: reads_def)

lemma writes_append: "writes (xs @ ys) = writes xs + writes ys"
  by (simp add: writes_def)

lemma delays_append: "delays (xs @ ys) = delays xs @ delays ys"
  by (induction xs rule: delays.induct) auto

lemma try_block_log:
  assumes "try_block conv c w tid u k = (res, w1)"
  shows "\<exists>evs. log w1 = log w @ evs \<and> reads evs = 1 \<and> writes evs \<le> 1
          \<and> (if res = Inr Continue then delays evs = [100 * k] \<and> k < MAX_RETRIES \<and> writes evs = 1
              else delays evs = [])"
  using assms
  by (auto simp: try_block_def query_def sleep_def Let_def reads_def writes_def
           split: prod.splits response.splits option.splits sum.splits if_splits)

lemma try_block_return:
  assumes "try_block conv c w tid u k = (Inr (Return r), w1)"
  shows "(\<exists>d. r = \<lparr>success = True, data = d\<rparr>) \<and> cache w1 = (cache w)(tid := None)"
  using assms
  by (auto simp: try_block_def query_def sleep_def Let_def
           split: prod.splits response.splits option.splits sum.splits if_splits)

lemma try_block_return_char:
  assumes "try_block conv c w tid u k = (Inr (Return r), w1)"
  shows "\<exists>cur nv d.
           fst (c (store w) ''template_library''
                  [OpSelect (Some ''*''), OpEq ''id'' (Str tid), OpSingle]) = Resolved (Some cur) None
         \<and> next_version conv (getprop cur ''version'') = Inr nv
         \<and> fst (c (snd (c (store w) ''template_library''
                            [OpSelect (Some ''*''), OpEq ''id'' (Str tid), OpSingle]))
                  ''template_library''
                  [OpUpdate (u(''version'' \<mapsto> Str nv, ''updated_at'' \<mapsto> DateISO (now w))),
                   OpEq ''id'' (Str tid), OpEq ''version'' (getprop cur ''version''),
                   OpSelect None, OpSingle]) = Resolved d None
         \<and> store w1 = snd (c (snd (c (store w) ''template_library''
                            [OpSelect (Some ''*''), OpEq ''id'' (Str tid), OpSingle]))
                  ''template_library''
                  [OpUpdate (u(''version'' \<mapsto> Str nv, ''updated_at'' \<mapsto> DateISO (now w))),
                   OpEq ''id'' (Str tid), OpEq ''version'' (getprop cur ''version''),
                   OpSelect None, OpSingle])
         \<and> r = \<lparr>success = True, data = d\<rparr>
         \<and> cache w1 = (cache w)(tid := None) \<and> now w1 = now w"
  using assms
  by (auto simp: try_block_def query_def sleep_def Let_def
           split: prod.splits response.splits option.splits sum.splits if_splits)

lemma try_block_return_write:
  assumes "try_block conv c w tid u k = (Inr (Return r), w1)"
  shows "\<exists>s ops d. list_ex is_update ops \<and> fst (c s ''template_library'' ops) = Resolved d None"
proof -
  from try_block_return_char[OF assms] obtain cur nv d where
    "fst (c (snd (c (store w) ''template_library''
                            [OpSelect (Some ''*''), OpEq ''id'' (Str tid), OpSingle]))
                  ''template_library''
                  [OpUpdate (u(''version'' \<mapsto> Str nv, ''updated_at'' \<mapsto> DateISO (now w))),
                   OpEq ''id'' (Str tid), OpEq ''version'' (getprop cur ''version''),
                   OpSelect None, OpSingle]) = Resolved d None"
    by blast
  moreover have "list_ex is_update
                  [OpUpdate (u(''version'' \<mapsto> Str nv, ''updated_at'' \<mapsto> DateISO (now w))),
                   OpEq ''id'' (Str tid), OpEq ''version'' (getprop cur ''version''),
                   OpSelect None, OpSingle]"
    by simp
  ultimately show ?thesis by blast
qed

lemma try_block_conflict_no_return:
  assumes conflict: "\<forall>s t ops. list_ex is_update ops \<longrightarrow>
             (\<exists>d e. fst (c s t ops) = Resolved d (Some e) \<and> err_code e = Some ''PGRST116'')"
  shows "try_block conv c w tid u k \<noteq> (Inr (Return r), w1)"
proof
  assume "try_block conv c w tid u k = (Inr (Return r), w1)"
  from try_block_return_write[OF this] obtain s ops d
    where ok: "list_ex is_update ops" "fst (c s ''template_library'' ops) = Resolved d None"
    by blast
  from conflict ok(1) obtain d' e where "fst (c s ''template_library'' ops) = Resolved d' (Some e)"
    by blast
  with ok(2) show False by simp
qed

text \<open>
  Errors that make an attempt throw: an error reported by the fetch, and an error
  reported by the update whose code is not \<open>PGRST116\<close>.
\<close>

lemma try_block_fetch_error:
  assumes "fst (c (store w) ''template_library''
                 [OpSelect (Some ''*''), OpEq ''id'' (Str tid), OpSingle]) = Resolved d (Some e)"
  shows "fst (try_block conv c w tid u k) = Inl e"
  using assms by (simp add: try_block_def query_def Let_def split: prod.splits)

lemma try_block_update_error:
  assumes "fst (c (store w) ''template_library''
                 [OpSelect (Some ''*''), OpEq ''id'' (Str tid), OpSingle]) = Resolved (Some cur) None"
      and "next_version conv (getprop cur ''version'') = Inr nv"
      and "fst (c (snd (c (store w) ''template_library''
                            [OpSelect (Some ''*''), OpEq ''id'' (Str tid), OpSingle]))
                  ''template_library''
                  [OpUpdate (u(''version'' \<mapsto> Str nv, ''updated_at'' \<mapsto> DateISO (now w))),
                   OpEq ''id'' (Str tid), OpEq ''version'' (getprop cur ''version''),
                   OpSelect None, OpSingle]) = Resolved d (Some e)"
      and "err_code e \<noteq> Some ''PGRST116''"
  shows "fst (try_block conv c w tid u k) = Inl e"
  using assms by (simp add: try_block_def query_def Let_def split: prod.splits)

text \<open>
  An attempt completes by \<open>continue\<close> only after a conflicting write, with attempts
  left, and after the delay \<open>100 * attempts\<close>.
\<close>

lemma try_block_continue_char:
  assumes "try_block conv c w tid u k = (Inr Continue, w1)"
  shows "k < MAX_RETRIES
       \<and> (\<exists>s ops d e. list_ex is_update ops \<and> fst (c s ''template_library'' ops) = Resolved d (Some e)
              \<and> err_code e = Some ''PGRST116'')
       \<and> (\<exists>q1 q2. log w1 = log w @ [q1, q2, EvSleep (100 * k)] \<and> is_read q1 \<and> is_write q2)
       \<and> now w1 = now w + 100 * k"
proof -
  from assms have k: "k < MAX_RETRIES"
    by (auto simp: try_block_def query_def sleep_def Let_def
           split: prod.splits response.splits option.splits sum.splits if_splits)
  from assms obtain cur nv d e where
    "fst (c (snd (c (store w) ''template_library''
                            [OpSelect (Some ''*''), OpEq ''id'' (Str tid), OpSingle]))
                  ''template_library''
                  [OpUpdate (u(''version'' \<mapsto> Str nv, ''updated_at'' \<mapsto> DateISO (now w))),
                   OpEq ''id'' (Str tid), OpEq ''version'' (getprop cur ''version''),
                   OpSelect None, OpSingle]) = Resolved d (Some e)"
    "err_code e = Some ''PGRST116''"
    "log w1 = log w @ [EvQuery ''template_library'' [OpSelect (Some ''*''), OpEq ''id'' (Str tid), OpSingle],
         EvQuery ''template_library''
                  [OpUpdate (u(''version'' \<mapsto> Str nv, ''updated_at'' \<mapsto> DateISO (now w))),
                   OpEq ''id'' (Str tid), OpEq ''version'' (getprop cur ''version''),
                   OpSelect None, OpSingle], EvSleep (100 * k)]"
    "now w1 = now w + 100 * k"
    by (auto simp: try_block_def query_def sleep_def Let_def
           split: prod.splits response.splits option.splits sum.splits if_splits)
  moreover have "list_ex is_update [OpUpdate (u(''version'' \<mapsto> Str nv, ''updated_at'' \<mapsto> DateISO (now w))),
                   OpEq ''id'' (Str tid), OpEq ''version'' (getprop cur ''version''),
                   OpSelect None, OpSingle]" by simp
  ultimately show ?thesis using k
    apply (intro conjI)
       apply assumption
      apply blast
     apply (rule exI, rule exI, rule conjI, assumption)
     apply simp
    apply assumption
    done
qed

lemma try_block_starts_with_read:
  assumes "try_block conv c w tid u k = (res, w1)"
  shows "\<exists>q rest. log w1 = log w @ q # rest \<and> is_read q \<and> delays [q] = []"
  using assms
  by (auto simp: try_block_def query_def sleep_def Let_def
           split: prod.splits response.splits option.splits sum.splits if_splits)

text \<open>
  One attempt on the mock client, with no other writer in between: it throws when the
  record is missing or the version cannot be converted, and otherwise commits and
  returns; it never meets a conflict.
\<close>

lemma try_block_mock:
  "try_block conv createMockSupabase w tid u k =
     (let w1 = w\<lparr>log := log w @ [EvQuery ''template_library''
                                    [OpSelect (Some ''*''), OpEq ''id'' (Str tid), OpSingle]]\<rparr>
      in case storage (store w) (Str tid) of
           None \<Rightarrow> (Inl (JsError None ''Not found''), w1)
         | Some cur \<Rightarrow>
             (case next_version conv (getprop cur ''version'') of
                Inl e \<Rightarrow> (Inl e, w1)
              | Inr nv \<Rightarrow>
                  (Inr (Return \<lparr>success = True,
                                 data = Some (cur ++ u(''version'' \<mapsto> Str nv,
                                                     ''updated_at'' \<mapsto> DateISO (now w)))\<rparr>),
                   w\<lparr>store := (store w)\<lparr>storage := (storage (store w))
                                    (Str tid \<mapsto> cur ++ u(''version'' \<mapsto> Str nv,
                                                            ''updated_at'' \<mapsto> DateISO (now w)))\<rparr>,
                     log := log w @ [EvQuery ''template_library''
                                       [OpSelect (Some ''*''), OpEq ''id'' (Str tid), OpSingle],
                                     EvQuery ''template_library''
                                       [OpUpdate (u(''version'' \<mapsto> Str nv,
                                                    ''updated_at'' \<mapsto> DateISO (now w))),
                                        OpEq ''id'' (Str tid),
                                        OpEq ''version'' (getprop cur ''version''),
                                        OpSelect None, OpSingle]],
                     cache := (cache w)(tid := None)\<rparr>)))"
  by (simp add: try_block_def query_def mock_select mock_update_versioned Let_def
           split: option.splits sum.splits)



text \<open>
  Claim C9. \<open>updateTemplate\<close> of the simplified solution never throws: whatever the
  client does (fetch error, missing data, update error, conflict, rejected call), the
  call returns an object, which is either \<open>{ success: true, data }\<close> or
  \<open>{ success: false, data: null }\<close>; and the latter is returned only when all
  \<open>MAX_RETRIES\<close> attempts are spent, each attempt having issued its read.
\<close>

theorem updateTemplate_never_throws:
  "\<exists>r w'. updateTemplate conv c w tid u = (Inr r, w')
      \<and> (r = failure \<or> (\<exists>d. r = \<lparr>success = True, data = d\<rparr>))
      \<and> (r = failure \<longrightarrow> reads (log w') = reads (log w) + MAX_RETRIES)"
proof -
  obtain res1 w1 where a1: "try_block conv c w tid u (Suc 0) = (res1, w1)"
    by (cases "try_block conv c w tid u (Suc 0)")
  obtain res2 w2 where a2: "try_block conv c w1 tid u (Suc (Suc 0)) = (res2, w2)"
    by (cases "try_block conv c w1 tid u (Suc (Suc 0))")
  from try_block_log[OF a1] obtain e1 where l1: "log w1 = log w @ e1" "reads e1 = 1" by blast
  from try_block_log[OF a2] obtain e2 where l2: "log w2 = log w1 @ e2" "reads e2 = 1" by blast
  show ?thesis
  proof (cases "\<exists>r. res1 = Inr (Return r)")
    case True
    then obtain r where r: "res1 = Inr (Return r)" by blast
    with try_block_return[of conv c w tid u "Suc 0" r w1] a1
    obtain d where "r = \<lparr>success = True, data = d\<rparr>" by blast
    with r a1 show ?thesis
      by (simp add: updateTemplate_unroll failure_def)
  next
    case False
    then have u1: "updateTemplate conv c w tid u =
        (case res2 of Inr (Return r) \<Rightarrow> (Inr r, w2) | other \<Rightarrow> (Inr failure, w2))"
      using a1 a2
      by (auto simp: updateTemplate_unroll split: sum.splits completion.splits)
    show ?thesis
    proof (cases "\<exists>r. res2 = Inr (Return r)")
      case True
      then obtain r where r: "res2 = Inr (Return r)" by blast
      with try_block_return[of conv c w1 tid u "Suc (Suc 0)" r w2] a2
      obtain d where "r = \<lparr>success = True, data = d\<rparr>" by blast
      with r u1 show ?thesis by (simp add: failure_def)
    next
      case False
      with u1 have "updateTemplate conv c w tid u = (Inr failure, w2)"
        by (auto split: sum.splits completion.splits)
      moreover have "reads (log w2) = reads (log w) + MAX_RETRIES"
        using l1 l2 by (simp add: reads_append MAX_RETRIES_def)
      ultimately show ?thesis by simp
    qed
  qed
qed

theorem updateTemplate_never_throws_witness:
  "\<exists>w'. updateTemplate no_conv always_failing (initial_world ()) ''t1'' Map.empty = (Inr failure, w')
        \<and> reads (log w') = 2"
  using updateTemplate_never_throws[of no_conv always_failing "initial_world ()" "''t1''" Map.empty]
  by (auto simp: failure_def initial_world_def reads_def MAX_RETRIES_def updateTemplate_unroll try_block_def
      query_def always_failing_def)

text \<open>
  Claim C3. Given a store whose conditional write always reports a version conflict
  (every query that holds an update resolves with the error code \<open>PGRST116\<close>),
  \<open>updateTemplate\<close> returns \<open>{ success: false, data: null }\<close> after at most
  \<open>MAX_RETRIES = 2\<close> conditional writes, which is within the bound of three
  attempts.
\<close>

theorem updateTemplate_bounded_retry:
  assumes conflict: "\<forall>s t ops. list_ex is_update ops \<longrightarrow>
             (\<exists>d e. fst (c s t ops) = Resolved d (Some e) \<and> err_code e = Some ''PGRST116'')"
  shows "fst (updateTemplate conv c w tid u) = Inr failure
       \<and> writes (log (snd (updateTemplate conv c w tid u))) \<le> writes (log w) + MAX_RETRIES
       \<and> MAX_RETRIES \<le> 3"
proof -
  obtain res1 w1 where a1: "try_block conv c w tid u (Suc 0) = (res1, w1)"
    by (cases "try_block conv c w tid u (Suc 0)")
  obtain res2 w2 where a2: "try_block conv c w1 tid u (Suc (Suc 0)) = (res2, w2)"
    by (cases "try_block conv c w1 tid u (Suc (Suc 0))")
  have n1: "res1 \<noteq> Inr (Return r)" for r
    using try_block_conflict_no_return[OF conflict, of conv w tid u "Suc 0" r w1] a1 by auto
  have n2: "res2 \<noteq> Inr (Return r)" for r
    using try_block_conflict_no_return[OF conflict, of conv w1 tid u "Suc (Suc 0)" r w2] a2 by auto
  have res: "updateTemplate conv c w tid u = (Inr failure, w2)"
    using a1 a2 n1 n2
    by (auto simp: updateTemplate_unroll split: sum.splits completion.splits)
  from try_block_log[OF a1] obtain e1 where l1: "log w1 = log w @ e1" "writes e1 \<le> 1" by blast
  from try_block_log[OF a2] obtain e2 where l2: "log w2 = log w1 @ e2" "writes e2 \<le> 1" by blast
  have "writes (log w2) \<le> writes (log w) + MAX_RETRIES"
    using l1 l2 by (simp add: writes_append MAX_RETRIES_def)
  with res show ?thesis by (simp add: MAX_RETRIES_def)
qed

theorem updateTemplate_bounded_retry_witness:
  "fst (updateTemplate no_conv always_conflict (initial_world ()) ''t1'' [''name'' \<mapsto> Str ''A'']) = Inr failure
   \<and> writes (log (snd (updateTemplate no_conv always_conflict (initial_world ()) ''t1'' [''name'' \<mapsto> Str ''A'']))) = 2
   \<and> delays (log (snd (updateTemplate no_conv always_conflict (initial_world ()) ''t1'' [''name'' \<mapsto> Str ''A'']))) = [100]"
proof -
  have c: "\<forall>s t ops. list_ex is_update ops \<longrightarrow>
             (\<exists>d e. fst (always_conflict s t ops) = Resolved d (Some e) \<and> err_code e = Some ''PGRST116'')"
    by (simp add: always_conflict_def PGRST116_def)
  have "writes (log (snd (updateTemplate no_conv always_conflict (initial_world ()) ''t1'' [''name'' \<mapsto> Str ''A'']))) = 2
     \<and> delays (log (snd (updateTemplate no_conv always_conflict (initial_world ()) ''t1'' [''name'' \<mapsto> Str ''A'']))) = [100]"
    by (simp add: updateTemplate_unroll try_block_def query_def always_conflict_def initial_world_def
          next_version_def Number_of_string_def is_digit_def nat_of_digits_def digit_val_def
          decimal.simps digit_char_def getprop_def PGRST116_def MAX_RETRIES_def sleep_def writes_def)
  with updateTemplate_bounded_retry[OF c, of no_conv "initial_world ()" "''t1''" "[''name'' \<mapsto> Str ''A'']"]
  show ?thesis by simp
qed

section \<open>Which failures are retried\<close>

text \<open>
  Claim C5 says that a store error other than a version conflict ends the operation
  after that single attempt, with no further read. On a store that has no record for the
  id, the fetch of the first attempt reports \<open>Not found\<close>, and the operation
  reads a second time before it returns \<open>{ success: false, data: null }\<close>.
\<close>

theorem further_read_after_not_found:
  "reads (log (snd (updateTemplate no_conv createMockSupabase (initial_world MockDatabase_new)
                      ''t1'' [''name'' \<mapsto> Str ''A'']))) = 2
   \<and> fst (updateTemplate no_conv createMockSupabase (initial_world MockDatabase_new)
            ''t1'' [''name'' \<mapsto> Str ''A'']) = Inr failure"
  by (simp add: updateTemplate_unroll try_block_mock initial_world_def MockDatabase_new_def reads_def)

text \<open>
  Claim C5, as the code has it. When the first attempt throws, whatever the error (a
  fetch error, a missing record, a failing conversion, an update error that is not a
  conflict, a rejected call), the error is caught and a second attempt follows at once:
  the first attempt has issued one read and waited no delay, the outcome of
  \<open>updateTemplate\<close> is the outcome of the second attempt (its success, or
  \<open>{ success: false, data: null }\<close> in place of any error), two reads are
  issued in all and no delay is waited.
\<close>

theorem updateTemplate_retries_any_failure:
  assumes "try_block conv c w tid u (Suc 0) = (Inl e, w1)"
  shows "reads (log w1) = reads (log w) + 1
       \<and> delays (log w1) = delays (log w)
       \<and> updateTemplate conv c w tid u =
           (case try_block conv c w1 tid u (Suc (Suc 0)) of
              (Inr (Return r), w2) \<Rightarrow> (Inr r, w2)
            | (other, w2) \<Rightarrow> (Inr failure, w2))
       \<and> reads (log (snd (updateTemplate conv c w tid u))) = reads (log w) + 2
       \<and> delays (log (snd (updateTemplate conv c w tid u))) = delays (log w)"
proof -
  from try_block_log[OF assms] obtain e1 where
    l1: "log w1 = log w @ e1" "reads e1 = 1" "delays e1 = []" by auto
  obtain res2 w2 where a2: "try_block conv c w1 tid u (Suc (Suc 0)) = (res2, w2)"
    by (cases "try_block conv c w1 tid u (Suc (Suc 0))")
  have "res2 \<noteq> Inr Continue"
    using try_block_continue_char[of conv c w1 tid u "Suc (Suc 0)" w2] a2
    by (auto simp: MAX_RETRIES_def)
  with try_block_log[OF a2] obtain e2 where
    l2: "log w2 = log w1 @ e2" "reads e2 = 1" "delays e2 = []" by auto
  have u: "updateTemplate conv c w tid u =
           (case try_block conv c w1 tid u (Suc (Suc 0)) of
              (Inr (Return r), w2) \<Rightarrow> (Inr r, w2)
            | (other, w2) \<Rightarrow> (Inr failure, w2))"
    using assms by (simp add: updateTemplate_unroll)
  have s: "snd (updateTemplate conv c w tid u) = w2"
    using u a2 by (auto split: sum.splits completion.splits)
  show ?thesis
    using l1 l2 u s by (simp add: reads_append delays_append)
qed

theorem updateTemplate_retries_any_failure_witness:
  "updateTemplate no_conv createMockSupabase (initial_world MockDatabase_new) ''t1'' [''name'' \<mapsto> Str ''A'']
     = (Inr failure,
        (initial_world MockDatabase_new)
          \<lparr>log := [EvQuery ''template_library'' [OpSelect (Some ''*''), OpEq ''id'' (Str ''t1''), OpSingle],
                   EvQuery ''template_library'' [OpSelect (Some ''*''), OpEq ''id'' (Str ''t1''), OpSingle]]\<rparr>)"
proof -
  have a: "try_block no_conv createMockSupabase (initial_world MockDatabase_new) ''t1'' [''name'' \<mapsto> Str ''A'']
             (Suc 0)
           = (Inl (JsError None ''Not found''),
              (initial_world MockDatabase_new)
                \<lparr>log := [EvQuery ''template_library''
                            [OpSelect (Some ''*''), OpEq ''id'' (Str ''t1''), OpSingle]]\<rparr>)"
    by (simp add: try_block_mock initial_world_def MockDatabase_new_def)
  from updateTemplate_retries_any_failure[OF a]
  show ?thesis
    by (simp add: try_block_mock initial_world_def MockDatabase_new_def)
qed

section \<open>The backoff delay\<close>

text \<open>
  Claim C6 gives every retry attempt \<open>k \<ge> 2\<close> the delay
  \<open>spec_backoff_before k\<close>. On a store that fails every query with an error that
  is not a conflict, attempt 2 is made (two reads are issued) and no delay at all is
  waited before it, where the claim asks for 100 ms.
\<close>

theorem retry_without_delay:
  "reads (log (snd (updateTemplate no_conv always_failing (initial_world ()) ''t1'' Map.empty))) = 2
   \<and> delays (log (snd (updateTemplate no_conv always_failing (initial_world ()) ''t1'' Map.empty))) = []
   \<and> spec_backoff_before 2 = 100"
  by (simp add: updateTemplate_unroll try_block_def query_def always_failing_def initial_world_def
        reads_def spec_backoff_before_def)

text \<open>
  Claim C6, as the code has it. The delays waited by one call of \<open>updateTemplate\<close>
  are none, or the single delay \<open>spec_backoff_before 2 = 100 * 2 ^ 0\<close> ms; the
  delay is waited exactly when attempt 1 ended in a version conflict that is retried
  (the body completed by \<open>continue\<close>, after \<open>sleep(100 * attempts)\<close>
  with \<open>attempts = 1\<close>); and it stands in the log between the conflicting write
  of attempt 1 and the read of attempt 2. With one delay at most, the delays never
  decrease.
\<close>

theorem updateTemplate_backoff_after_conflict:
  "\<exists>ds. delays (log (snd (updateTemplate conv c w tid u))) = delays (log w) @ ds
       \<and> (ds = [] \<or> ds = [spec_backoff_before 2])
       \<and> (ds \<noteq> [] \<longleftrightarrow> (\<exists>w1. try_block conv c w tid u (Suc 0) = (Inr Continue, w1)))
       \<and> (ds \<noteq> [] \<longrightarrow>
            (\<exists>q1 q2 q3 rest. log (snd (updateTemplate conv c w tid u))
                                = log w @ [q1, q2, EvSleep (spec_backoff_before 2), q3] @ rest
               \<and> is_read q1 \<and> is_write q2 \<and> is_read q3))"
proof -
  obtain res1 w1 where a1: "try_block conv c w tid u (Suc 0) = (res1, w1)"
    by (cases "try_block conv c w tid u (Suc 0)")
  obtain res2 w2 where a2: "try_block conv c w1 tid u (Suc (Suc 0)) = (res2, w2)"
    by (cases "try_block conv c w1 tid u (Suc (Suc 0))")
  have nc: "res2 \<noteq> Inr Continue"
    using try_block_continue_char[of conv c w1 tid u "Suc (Suc 0)" w2] a2
    by (auto simp: MAX_RETRIES_def)
  from try_block_log[OF a1] obtain e1 where
    l1: "log w1 = log w @ e1"
        "if res1 = Inr Continue then delays e1 = [100 * Suc 0] else delays e1 = []" by auto
  from try_block_log[OF a2] nc obtain e2 where
    l2: "log w2 = log w1 @ e2" "delays e2 = []" by auto
  show ?thesis
  proof (cases "res1 = Inr Continue")
    case True
    with a1 a2 have s: "snd (updateTemplate conv c w tid u) = w2"
      by (auto simp: updateTemplate_unroll split: sum.splits completion.splits)
    from try_block_continue_char[of conv c w tid u "Suc 0" w1] a1 True obtain q1 q2 where
      q: "log w1 = log w @ [q1, q2, EvSleep (100 * Suc 0)]" "is_read q1" "is_write q2"
      by auto
    from try_block_starts_with_read[OF a2] obtain q3 rest where
      r: "log w2 = log w1 @ q3 # rest" "is_read q3" by blast
    have d: "delays (log w2) = delays (log w) @ [spec_backoff_before 2]"
      using l1 l2 True by (simp add: delays_append spec_backoff_before_def)
    have "log w2 = log w @ [q1, q2, EvSleep (spec_backoff_before 2), q3] @ rest"
      using q(1) r(1) by (simp add: spec_backoff_before_def)
    with q(2,3) r(2) d s a1 True show ?thesis by auto
  next
    case False
    have "\<exists>w'. snd (updateTemplate conv c w tid u) = w' \<and> delays (log w') = delays (log w)"
    proof (cases "\<exists>r. res1 = Inr (Return r)")
      case True
      with a1 have "snd (updateTemplate conv c w tid u) = w1"
        by (auto simp: updateTemplate_unroll)
      with l1 False show ?thesis by (simp add: delays_append)
    next
      case nr: False
      with a1 a2 have "snd (updateTemplate conv c w tid u) = w2"
        by (auto simp: updateTemplate_unroll split: sum.splits completion.splits)
      with l1 l2 False show ?thesis by (simp add: delays_append)
    qed
    with a1 False show ?thesis by auto
  qed
qed

theorem updateTemplate_backoff_after_conflict_witness:
  "delays (log (snd (updateTemplate no_conv always_conflict (initial_world ()) ''t1'' Map.empty)))
     = [spec_backoff_before 2]
   \<and> spec_backoff_before 2 = 100"
proof -
  have "\<exists>w1. try_block no_conv always_conflict (initial_world ()) ''t1'' Map.empty (Suc 0) = (Inr Continue, w1)"
    by (simp add: try_block_def query_def always_conflict_def initial_world_def number_defs getprop_def
          PGRST116_def MAX_RETRIES_def Let_def)
  moreover have "delays (log (initial_world ())) = []"
    by (simp add: initial_world_def)
  ultimately show ?thesis
    using updateTemplate_backoff_after_conflict[of no_conv always_conflict "initial_world ()" "''t1''" Map.empty]
    by (auto simp: spec_backoff_before_def)
qed

section \<open>Cache coherence\<close>














text \<open>
  What the second item leaves open: an entry cached after the update is served until the
  instance itself invalidates it. After update, get, and a write of version \<open>3\<close>
  by another writer, the next get still returns the update's record (version
  \<open>2\<close>), which the database held after the update returned.
\<close>

lemma getTemplate_after_other_writer:
  "(let w0 = initial_world simplified_test_db;
        u = updateTemplate no_conv createMockSupabase w0 ''template-1'' [''name'' \<mapsto> Str ''Mine''];
        other = (\<lambda>db. snd (MockDatabase_update db (Str ''template-1'')
                              [''name'' \<mapsto> Str ''Other'', ''version'' \<mapsto> Str ''3''] None));
        obs = run_calls no_conv [GetTemplate ''template-1'', OtherWriter other, GetTemplate ''template-1'']
                (snd u) [store (snd u)]
    in map (\<lambda>ob. case obs_result ob of
                      Inl e \<Rightarrow> (Undefined, Undefined)
                    | Inr d \<Rightarrow> (getprop_opt d ''name'', getprop_opt d ''version'')) obs
         = [(Str ''Mine'', Str ''2''), (Str ''Mine'', Str ''2'')]
     \<and> map (\<lambda>ob. map (\<lambda>db. getprop_opt (storage db (Str ''template-1'')) ''version'') (obs_states ob)) obs
         = [[Str ''2''], [Str ''2'', Str ''3'']])"
  by (simp add: updateTemplate_unroll try_block_mock getTemplate_def query_def mock_select
        MockDatabase_update_def MockDatabase_get_def fixture_defs number_defs Let_def)

text \<open>
  The unfixed service of problem.tsx does not delete the entry: it replaces it by the
  record the committed write returned, which is what its \<open>getTemplate\<close> then
  serves.
\<close>

lemma problem_updateTemplate_refreshes_cache:
  assumes "problem_updateTemplate c w tid u = (Inr r, w')"
  shows "success r \<and> cache w' tid = Some (data r)
       \<and> problem_getTemplate c2 w' tid = (Inr (data r), w')"
  using assms
  by (auto simp: problem_updateTemplate_def problem_getTemplate_def query_def Let_def
           split: prod.splits response.splits option.splits)

text \<open>
  Over a sequence of calls: on the mock client, \<open>getTemplate\<close> and
  \<open>updateTemplate\<close> of the simplified solution keep the cache in agreement with
  the database, and in such a state \<open>getTemplate\<close> returns the record the
  database holds. (A writer that goes to the database directly, as the background
  processor does, is outside this invariant.)
\<close>

lemma getTemplate_coherent:
  assumes "coherent w"
  shows "fst (getTemplate createMockSupabase w tid) = Inr (storage (store w) (Str tid))
       \<and> store (snd (getTemplate createMockSupabase w tid)) = store w
       \<and> coherent (snd (getTemplate createMockSupabase w tid))"
  using assms
  by (auto simp: coherent_def getTemplate_def query_def mock_select Let_def split: option.splits)

lemma try_block_coherent:
  assumes "coherent w"
  shows "coherent (snd (try_block conv createMockSupabase w tid u k))"
  using assms
  by (auto simp: coherent_def try_block_mock Let_def split: option.splits sum.splits)

lemma updateTemplate_coherent:
  assumes "coherent w"
  shows "coherent (snd (updateTemplate conv createMockSupabase w tid u))"
proof -
  have 1: "coherent (snd (try_block conv createMockSupabase w tid u (Suc 0)))"
    by (rule try_block_coherent[OF assms])
  have 2: "coherent (snd (try_block conv createMockSupabase
                            (snd (try_block conv createMockSupabase w tid u (Suc 0))) tid u (Suc (Suc 0))))"
    by (rule try_block_coherent[OF 1])
  show ?thesis
    using 1 2
    by (auto simp: updateTemplate_unroll split: prod.splits sum.splits completion.splits)
qed

section \<open>Version tokens\<close>

text \<open>
  Claim C1 asks that a write is applied only if the version the writer observed is the
  version committed in the store when the write commits. \<open>updateTemplate\<close> of
  problem.tsx sends its update with no version condition: a writer that has read the
  record at version \<open>1\<close> has its write applied, and reported as a success,
  after another writer has committed version \<open>2\<close>.
\<close>

theorem problem_updateTemplate_ignores_version:
  "(let w1 = snd (problem_getTemplate createMockSupabase (initial_world simplified_test_db) ''template-1'');
        w2 = w1\<lparr>store := snd (MockDatabase_update (store w1) (Str ''template-1'')
                                 [''name'' \<mapsto> Str ''Other'', ''version'' \<mapsto> Str ''2''] None)\<rparr>;
        u = problem_updateTemplate createMockSupabase w2 ''template-1'' [''description'' \<mapsto> Str ''Mine'']
    in stored_field w1 ''template-1'' ''version'' = Str ''1''
       \<and> stored_field w2 ''template-1'' ''version'' = Str ''2''
       \<and> succeeded (fst u)
       \<and> stored_field (snd u) ''template-1'' ''description'' = Str ''Mine'')"
  by (simp add: problem_updateTemplate_def problem_getTemplate_def query_def mock_select
        mock_update_unconditional MockDatabase_update_def MockDatabase_get_def fixture_defs Let_def)

text \<open>
  The simplified solution, for comparison, detects the race when the version it read is
  truthy: if another writer changes the version between the read and the write of an
  attempt, the write resolves with \<open>PGRST116\<close>, the attempt is retried or thrown,
  and the database is as the other writer left it.
\<close>

lemma solution_detects_conflict:
  assumes "store w = (db, [id, f])"
      and "storage db (Str tid) = Some cur" and "truthy (getprop cur ''version'')"
      and "next_version conv (getprop cur ''version'') = Inr nv"
      and "storage (f db) (Str tid) = Some cur2"
      and "getprop cur2 ''version'' \<noteq> getprop cur ''version''"
  shows "fst (try_block conv (racing createMockSupabase) w tid u k)
           = (if k < MAX_RETRIES then Inr Continue else Inl PGRST116)
       \<and> store (snd (try_block conv (racing createMockSupabase) w tid u k)) = (f db, [])"
  using assms
  by (simp add: try_block_def query_def racing_def mock_select mock_update_versioned sleep_def
        PGRST116_def Let_def)

text \<open>
  The simplified solution sends the version it read as the condition of its write. The
  mock database compares it only when it is truthy: a writer that has read a record
  with no version has its write applied although another writer has committed version
  \<open>5\<close> between its read and its write.
\<close>

lemma falsy_version_is_not_compared:
  "(let db = database_with [''id'' \<mapsto> Str ''t1'', ''name'' \<mapsto> Str ''Original''];
        other = (\<lambda>d. snd (MockDatabase_update d (Str ''t1'')
                              [''name'' \<mapsto> Str ''Other'', ''version'' \<mapsto> Str ''5''] None));
        u = updateTemplate no_conv (racing createMockSupabase) (initial_world (db, [id, other]))
              ''t1'' [''description'' \<mapsto> Str ''Mine'']
    in succeeded (fst u)
       \<and> getprop_opt (storage (fst (store (snd u))) (Str ''t1'')) ''name'' = Str ''Other''
       \<and> getprop_opt (storage (fst (store (snd u))) (Str ''t1'')) ''description'' = Str ''Mine''
       \<and> getprop_opt (storage (fst (store (snd u))) (Str ''t1'')) ''version'' = Str ''1'')"
  by (simp add: updateTemplate_unroll try_block_def query_def racing_def mock_select
        mock_update_versioned MockDatabase_update_def MockDatabase_get_def fixture_defs number_defs Let_def)

text \<open>
  Claim C7 asks that every successful write replaces the version by a value distinct
  from the one the writer observed. Starting from the record of the test utilities,
  whose version is \<open>1.0.0\<close>, the first \<open>updateTemplate\<close> of the simplified
  solution commits the version \<open>NaN\<close>, and the second one, which observes
  \<open>NaN\<close>, succeeds and commits \<open>NaN\<close> again.
\<close>

theorem version_reused_after_NaN:
  "(let w1 = snd (updateTemplate no_conv createMockSupabase (initial_world test_db)
                    ''test-template-123'' [''name'' \<mapsto> Str ''A'']);
        u2 = updateTemplate no_conv createMockSupabase w1 ''test-template-123'' [''name'' \<mapsto> Str ''B'']
    in stored_field (initial_world test_db) ''test-template-123'' ''version'' = Str ''1.0.0''
       \<and> stored_field w1 ''test-template-123'' ''version'' = Str ''NaN''
       \<and> succeeded (fst u2)
       \<and> stored_field (snd u2) ''test-template-123'' ''name'' = Str ''B''
       \<and> stored_field (snd u2) ''test-template-123'' ''version'' = Str ''NaN'')"
  by (simp add: updateTemplate_unroll try_block_mock fixture_defs number_defs Let_def)

text \<open>
  The other two writers of versions: \<open>updateTemplate\<close> of problem.tsx leaves the
  version as it is, and the patch computed by \<open>incrementVersion\<close> is
  \<open>NaN\<close> again once it is \<open>NaN\<close>.
\<close>

lemma problem_updateTemplate_keeps_version:
  "(let u = problem_updateTemplate createMockSupabase (initial_world simplified_test_db)
              ''template-1'' [''name'' \<mapsto> Str ''A'']
    in succeeded (fst u)
       \<and> stored_field (snd u) ''template-1'' ''name'' = Str ''A''
       \<and> stored_field (snd u) ''template-1'' ''version'' = Str ''1'')"
  by (simp add: problem_updateTemplate_def query_def mock_update_unconditional fixture_defs Let_def)

lemma incrementVersion_NaN_fixpoint:
  "incrementVersion conv ''1.0.x'' = ''1.0.NaN'' \<and> incrementVersion conv ''1.0.NaN'' = ''1.0.NaN''"
  by (simp add: incrementVersion_def part_def parseInt_of_string_def is_digit_def is_letter_def Let_def)

text \<open>
  On a version that is a string of decimal digits below \<open>2^53\<close> the simplified
  solution does what the claim asks: the new version is the numeral of the successor,
  and differs from the version observed.
\<close>

lemma digit_val_digit_char: "d < 10 \<Longrightarrow> digit_val (digit_char d) = d"
  unfolding digit_val_def digit_char_def
  by (auto simp: numeral_eq_Suc less_Suc_eq)

lemma nat_of_digits_snoc: "nat_of_digits (xs @ [c]) = 10 * nat_of_digits xs + digit_val c"
  by (simp add: nat_of_digits_def)

lemma nat_of_digits_decimal: "nat_of_digits (decimal n) = n"
proof (induction n rule: decimal.induct)
  case (1 n)
  show ?case
  proof (cases "n < 10")
    case True
    then show ?thesis
      by (subst decimal.simps) (simp add: nat_of_digits_def digit_val_digit_char)
  next
    case False
    with "1" have "nat_of_digits (decimal (n div 10)) = n div 10" by simp
    with False show ?thesis
      by (subst decimal.simps) (simp add: nat_of_digits_snoc digit_val_digit_char)
  qed
qed

lemma next_version_distinct_on_integers:
  assumes "Number_of_string s = JInt n"
  shows "next_version conv (Str s) = Inr (decimal (n + 1)) \<and> decimal (n + 1) \<noteq> s"
proof -
  from assms have s: "s \<noteq> []" "nat_of_digits s = n"
    by (auto simp: Number_of_string_def split: if_splits)
  have "nat_of_digits (decimal (n + 1)) = n + 1" by (rule nat_of_digits_decimal)
  with s(2) have "decimal (n + 1) \<noteq> s" by auto
  with assms s(1) show ?thesis by (simp add: next_version_def)
qed

section \<open>The background processor\<close>

text \<open>
  The processor on the mock client, with no other writer in between: a missing record
  ends the call; otherwise the record is processed and, unless the processing throws,
  written back.
\<close>

lemma processTemplateFields_mock:
  "processTemplateFields createMockSupabase w tid =
     (let w1 = w\<lparr>log := log w @ [EvQuery ''template_library''
                   [OpSelect (Some ''sections, field_definitions''), OpEq ''id'' (Str tid), OpSingle]]\<rparr>
      in case storage (store w) (Str tid) of
           None \<Rightarrow> (Inr (), w1)
         | Some t \<Rightarrow>
             (case fst (performComplexProcessing w1 t) of
                Inl e \<Rightarrow> (Inl e, sleep w1 100)
              | Inr processed \<Rightarrow>
                  (Inr (),
                   (sleep w1 100)
                     \<lparr>store := (store w)\<lparr>storage := (storage (store w))
                         (Str tid \<mapsto> t ++ [''field_definitions'' \<mapsto> getprop processed ''field_definitions'',
                                             ''processed_at'' \<mapsto> DateISO (now w + 100)])\<rparr>,
                      log := log w @ [EvQuery ''template_library''
                                        [OpSelect (Some ''sections, field_definitions''),
                                         OpEq ''id'' (Str tid), OpSingle],
                                      EvSleep 100,
                                      EvQuery ''template_library''
                                        [OpUpdate [''field_definitions'' \<mapsto> getprop processed ''field_definitions'',
                                                   ''processed_at'' \<mapsto> DateISO (now w + 100)],
                                         OpEq ''id'' (Str tid)]]\<rparr>)))"
  by (auto simp: processTemplateFields_def query_def mock_select mock_update_processor Let_def
        performComplexProcessing_def sleep_def
           split: option.splits sum.splits prod.splits)

lemma processTemplateFields_payload:
  assumes "processTemplateFields c w tid = (res, w2)"
  shows "\<exists>evs. log w2 = log w @ evs
           \<and> (\<forall>t ops p. EvQuery t ops \<in> set evs \<and> OpUpdate p \<in> set ops
                 \<longrightarrow> p ''last_user_update'' = None)"
  using assms
  by (auto simp: processTemplateFields_def query_def Let_def performComplexProcessing_def sleep_def
           split: option.splits sum.splits prod.splits response.splits)

text \<open>
  Whatever \<open>last_user_update\<close> and the clock are: when the record exists and the
  call returns, the processor has issued its write and the record carries
  \<open>processed_at\<close>.
\<close>

lemma processTemplateFields_always_writes:
  assumes "storage (store w) (Str tid) = Some t"
      and "fst (processTemplateFields createMockSupabase w tid) = Inr ()"
  shows "writes (log (snd (processTemplateFields createMockSupabase w tid))) = writes (log w) + 1
       \<and> stored_field (snd (processTemplateFields createMockSupabase w tid)) tid ''processed_at''
           = DateISO (now w + 100)"
  using assms
  by (auto simp: processTemplateFields_mock Let_def writes_def stored_field_def getprop_opt_def
        getprop_def sleep_def split: sum.splits)

text \<open>
  Claim C4 asks that \<open>processTemplateFields\<close> writes nothing and reports that it
  skipped when the record was updated by a user less than 5000 ms ago. With
  \<open>last_user_update\<close> 1000 ms before the processor runs, the processor issues its
  write, the stored record gets \<open>processed_at\<close> and the marked field definitions,
  and the call returns nothing.
\<close>

theorem processTemplateFields_writes_during_cooldown:
  "(let w = (initial_world (database_with (createTestTemplate 0
                 [''last_user_update'' \<mapsto> DateISO 6000])))\<lparr>now := 7000\<rparr>;
        p = processTemplateFields createMockSupabase w ''test-template-123''
    in stored_field w ''test-template-123'' ''last_user_update'' = DateISO 6000
       \<and> fst p = Inr ()
       \<and> writes (log (snd p)) = 1
       \<and> stored_field w ''test-template-123'' ''processed_at'' = Undefined
       \<and> stored_field (snd p) ''test-template-123'' ''processed_at'' = DateISO 7100
       \<and> stored_field (snd p) ''test-template-123'' ''field_definitions'' =
           Obj [(''field-1'', Obj [(''id'', Str ''field-1''), (''type'', Str ''text''),
                                   (''label'', Str ''Equipment Name''), (''required'', Bool True),
                                   (''processed'', Bool True), (''processedAt'', DateISO 7100)]),
                (''field-2'', Obj [(''id'', Str ''field-2''), (''type'', Str ''number''),
                                   (''label'', Str ''Serial Number''), (''required'', Bool False),
                                   (''processed'', Bool True), (''processedAt'', DateISO 7100)])])"
  by (simp add: processTemplateFields_mock performComplexProcessing_def sleep_def fixture_defs
        writes_def Let_def)

text \<open>
  Claim C8 says that every successful write through \<open>updateTemplate\<close> sets
  \<open>last_user_update\<close> to the current time. At time 7000 a successful update of a
  record whose \<open>last_user_update\<close> is 1000 sets \<open>updated_at\<close> to 7000 and
  leaves \<open>last_user_update\<close> at 1000.
\<close>

theorem updateTemplate_leaves_last_user_update:
  "(let w = (initial_world (database_with (createTestTemplate 0
                 [''version'' \<mapsto> Str ''1'', ''last_user_update'' \<mapsto> DateISO 1000])))\<lparr>now := 7000\<rparr>;
        u = updateTemplate no_conv createMockSupabase w ''test-template-123'' [''name'' \<mapsto> Str ''A'']
    in succeeded (fst u)
       \<and> stored_field (snd u) ''test-template-123'' ''name'' = Str ''A''
       \<and> stored_field (snd u) ''test-template-123'' ''updated_at'' = DateISO 7000
       \<and> stored_field (snd u) ''test-template-123'' ''last_user_update'' = DateISO 1000)"
  by (simp add: updateTemplate_unroll try_block_mock fixture_defs number_defs Let_def)

text \<open>
  Claim C8, as the code has it. On the mock client, a successful \<open>updateTemplate\<close>
  of the simplified solution sets \<open>updated_at\<close> to the current time, and
  \<open>last_user_update\<close> is afterwards what the payload gives for it, or else what was
  stored; \<open>processTemplateFields\<close> leaves the stored \<open>last_user_update\<close> as it
  was; and on any client, no update that the processor sends names
  \<open>last_user_update\<close>.
\<close>

theorem last_user_update_frame:
  "(updateTemplate conv createMockSupabase w tid u = (Inr r, w') \<and> success r \<longrightarrow>
      (\<exists>old rec. storage (store w) (Str tid) = Some old \<and> storage (store w') (Str tid) = Some rec
         \<and> rec ''updated_at'' = Some (DateISO (now w))
         \<and> rec ''last_user_update'' = (old ++ u) ''last_user_update''))
   \<and> (processTemplateFields createMockSupabase w tid = (res, w2) \<longrightarrow>
        stored_field w2 tid ''last_user_update'' = stored_field w tid ''last_user_update'')
   \<and> (\<forall>c t ops p. EvQuery t ops \<in> set (log (snd (processTemplateFields c w tid)))
                    \<and> EvQuery t ops \<notin> set (log w) \<and> OpUpdate p \<in> set ops
          \<longrightarrow> p ''last_user_update'' = None)"
proof -
  have a: "\<exists>old rec. storage (store w) (Str tid) = Some old \<and> storage (store w') (Str tid) = Some rec
         \<and> rec ''updated_at'' = Some (DateISO (now w))
         \<and> rec ''last_user_update'' = (old ++ u) ''last_user_update''"
    if "updateTemplate conv createMockSupabase w tid u = (Inr r, w')" and "success r"
    using that
    by (auto simp: updateTemplate_unroll try_block_mock Let_def failure_def map_add_def
             split: option.splits sum.splits)
  have b: "stored_field w2 tid ''last_user_update'' = stored_field w tid ''last_user_update''"
    if "processTemplateFields createMockSupabase w tid = (res, w2)"
    using that
    by (auto simp: processTemplateFields_mock Let_def stored_field_def getprop_opt_def getprop_def
          sleep_def map_add_def split: option.splits sum.splits)
  have c: "p ''last_user_update'' = None"
    if "EvQuery t ops \<in> set (log (snd (processTemplateFields c w tid)))"
       "EvQuery t ops \<notin> set (log w)" "OpUpdate p \<in> set ops"
    for c :: "MockDatabase client" and t ops p
  proof -
    from processTemplateFields_payload[OF surjective_pairing, of c w tid] obtain evs where
      e: "log (snd (processTemplateFields c w tid)) = log w @ evs"
         "\<forall>t ops p. EvQuery t ops \<in> set evs \<and> OpUpdate p \<in> set ops
                 \<longrightarrow> p ''last_user_update'' = None"
      by blast
    from that e(1) have "EvQuery t ops \<in> set evs" by auto
    with e(2) that(3) show ?thesis by blast
  qed
  from a b c show ?thesis by blast
qed

theorem last_user_update_frame_witness:
  "stored_field
     (snd (updateTemplate no_conv createMockSupabase
             ((initial_world (database_with (createTestTemplate 0
                 [''version'' \<mapsto> Str ''1'', ''last_user_update'' \<mapsto> DateISO 1000])))\<lparr>now := 7000\<rparr>)
             ''test-template-123'' [''last_user_update'' \<mapsto> DateISO 42]))
     ''test-template-123'' ''last_user_update'' = DateISO 42
   \<and> stored_field
     (snd (processTemplateFields createMockSupabase
             ((initial_world (database_with (createTestTemplate 0
                 [''version'' \<mapsto> Str ''1'', ''last_user_update'' \<mapsto> DateISO 1000])))\<lparr>now := 7000\<rparr>)
             ''test-template-123''))
     ''test-template-123'' ''last_user_update'' = DateISO 1000"
proof -
  let ?w = "(initial_world (database_with (createTestTemplate 0
                 [''version'' \<mapsto> Str ''1'', ''last_user_update'' \<mapsto> DateISO 1000])))\<lparr>now := 7000\<rparr>"
  let ?u = "[''last_user_update'' \<mapsto> DateISO 42]"
  let ?U = "updateTemplate no_conv createMockSupabase ?w ''test-template-123'' ?u"
  let ?P = "processTemplateFields createMockSupabase ?w ''test-template-123''"
  obtain r where r: "fst ?U = Inr r" "success r"
    by (simp add: updateTemplate_unroll try_block_mock fixture_defs number_defs Let_def)
  then have U: "?U = (Inr r, snd ?U)" by (simp add: prod_eq_iff)
  have old: "stored_field ?w ''test-template-123'' ''last_user_update'' = DateISO 1000"
    by (simp add: fixture_defs)
  from last_user_update_frame[of no_conv ?w "''test-template-123''" ?u r "snd ?U" "fst ?P" "snd ?P"] U r(2)
  obtain rec where
    "storage (store (snd ?U)) (Str ''test-template-123'') = Some rec"
    "rec ''last_user_update'' = Some (DateISO 42)"
    and "stored_field (snd ?P) ''test-template-123'' ''last_user_update''
           = stored_field ?w ''test-template-123'' ''last_user_update''"
    by (auto simp: map_add_def)
  with old show ?thesis
    by (simp add: stored_field_def getprop_opt_def getprop_def)
qed

end
